theory Spec2Isabelle
  imports Complex_Main "HOL-Library.Word"
begin

section \<open>The infill pattern classes of FillRectilinear.hpp\<close>

text \<open>
  FillRectilinear.hpp declares thirteen classes below the base class \<open>Fill\<close>
  (FillBase.hpp, a file this development does not cover). Each class is a constructor
  of \<open>fill_class\<close>; \<open>base_class\<close> is the base named after the colon of each
  \<^verbatim>\<open>class X : public B\<close>.
\<close>

datatype fill_class =
    Fill
  | FillRectilinear
  | FillAlignedRectilinear
  | FillMonotonic
  | FillMonotonicLine
  | FillGrid
  | FillTriangles
  | FillStars
  | FillCubic
  | FillSupportBase
  | FillMonotonicLineWGapFill
  | FillZigZag
  | FillCrossZag
  | FillLockedZag

fun base_class :: "fill_class \<Rightarrow> fill_class option" where
  "base_class Fill = None"
| "base_class FillRectilinear = Some Fill"
| "base_class FillAlignedRectilinear = Some FillRectilinear"
| "base_class FillMonotonic = Some FillRectilinear"
| "base_class FillMonotonicLine = Some FillRectilinear"
| "base_class FillGrid = Some FillRectilinear"
| "base_class FillTriangles = Some FillRectilinear"
| "base_class FillStars = Some FillRectilinear"
| "base_class FillCubic = Some FillRectilinear"
| "base_class FillSupportBase = Some FillRectilinear"
| "base_class FillMonotonicLineWGapFill = Some Fill"
| "base_class FillZigZag = Some FillRectilinear"
| "base_class FillCrossZag = Some FillRectilinear"
| "base_class FillLockedZag = Some FillRectilinear"

text \<open>The number of \<open>base_class\<close> steps up to \<open>Fill\<close>; it bounds the method lookup.\<close>

fun inheritance_depth :: "fill_class \<Rightarrow> nat" where
  "inheritance_depth Fill = 0"
| "inheritance_depth FillRectilinear = 1"
| "inheritance_depth FillMonotonicLineWGapFill = 1"
| "inheritance_depth FillAlignedRectilinear = 2"
| "inheritance_depth FillMonotonic = 2"
| "inheritance_depth FillMonotonicLine = 2"
| "inheritance_depth FillGrid = 2"
| "inheritance_depth FillTriangles = 2"
| "inheritance_depth FillStars = 2"
| "inheritance_depth FillCubic = 2"
| "inheritance_depth FillSupportBase = 2"
| "inheritance_depth FillZigZag = 2"
| "inheritance_depth FillCrossZag = 2"
| "inheritance_depth FillLockedZag = 2"

subsection \<open>The virtual member functions each class body defines\<close>

text \<open>
  One table per virtual member function: \<open>Some m\<close> where the class body of the header
  defines the function (with body \<open>m\<close>), \<open>None\<close> where it does not mention it.
  \<open>Fill\<close> itself is \<open>None\<close> in every table: its member functions are declared in
  FillBase.hpp and enter the model as a parameter of the call (below).
\<close>

fun is_self_crossing_override :: "fill_class \<Rightarrow> bool option" where
  "is_self_crossing_override FillRectilinear = Some False"
| "is_self_crossing_override FillGrid = Some True"
| "is_self_crossing_override FillTriangles = Some True"
| "is_self_crossing_override FillStars = Some True"
| "is_self_crossing_override FillCubic = Some True"
| "is_self_crossing_override FillMonotonicLineWGapFill = Some False"
| "is_self_crossing_override _ = None"

fun no_sort_override :: "fill_class \<Rightarrow> bool option" where
  "no_sort_override FillMonotonic = Some True"
| "no_sort_override FillMonotonicLine = Some True"
| "no_sort_override FillMonotonicLineWGapFill = Some True"
| "no_sort_override _ = None"

fun has_consistent_pattern_override :: "fill_class \<Rightarrow> bool option" where
  "has_consistent_pattern_override FillZigZag = Some True"
| "has_consistent_pattern_override FillCrossZag = Some True"
| "has_consistent_pattern_override FillLockedZag = Some True"
| "has_consistent_pattern_override _ = None"

text \<open>
  \<^verbatim>\<open>float _layer_angle(size_t idx) const override { return 0.f; }\<close>: the index is a
  \<open>size_t\<close> (64 bits), the result the float constant zero, which is the real number 0.
\<close>

type_synonym size_t = "64 word"

fun layer_angle_override :: "fill_class \<Rightarrow> (size_t \<Rightarrow> real) option" where
  "layer_angle_override FillAlignedRectilinear = Some (\<lambda>idx. 0)"
| "layer_angle_override FillGrid = Some (\<lambda>idx. 0)"
| "layer_angle_override FillTriangles = Some (\<lambda>idx. 0)"
| "layer_angle_override FillStars = Some (\<lambda>idx. 0)"
| "layer_angle_override FillCubic = Some (\<lambda>idx. 0)"
| "layer_angle_override FillSupportBase = Some (\<lambda>idx. 0)"
| "layer_angle_override _ = None"

subsection \<open>Virtual dispatch\<close>

text \<open>
  A virtual call on an object of class \<open>c\<close> runs the definition of the nearest class on
  the way from \<open>c\<close> up to \<open>Fill\<close> that defines the function: \<open>final_overrider\<close> walks
  the chain of base classes and returns the first definition it meets, \<open>None\<close> when no
  class of the header on that chain has one.
\<close>

function final_overrider :: "(fill_class \<Rightarrow> 'm option) \<Rightarrow> fill_class \<Rightarrow> 'm option" where
  "final_overrider defined_in c =
     (case defined_in c of
        Some m \<Rightarrow> Some m
      | None \<Rightarrow>
          (case base_class c of
             None \<Rightarrow> None
           | Some b \<Rightarrow> final_overrider defined_in b))"
  by pat_completeness auto
termination
proof (relation "measure (\<lambda>(defined_in, c). inheritance_depth c)")
  show "wf (measure (\<lambda>(defined_in :: fill_class \<Rightarrow> 'm option, c). inheritance_depth c))"
    by simp
next
  fix defined_in :: "fill_class \<Rightarrow> 'm option" and c b
  assume "base_class c = Some b"
  then have "inheritance_depth b < inheritance_depth c"
    by (cases c) auto
  then show "((defined_in, b), (defined_in, c)) \<in> measure (\<lambda>(defined_in, c). inheritance_depth c)"
    by simp
qed

declare final_overrider.simps [simp del]

text \<open>
  When no class of the header defines the function, the call runs the definition of
  \<open>Fill\<close> itself. That definition is in FillBase.hpp; it is the parameter \<open>in_Fill\<close>.
\<close>

definition virtual_call :: "(fill_class \<Rightarrow> 'm option) \<Rightarrow> 'm \<Rightarrow> fill_class \<Rightarrow> 'm" where
  "virtual_call defined_in in_Fill c =
     (case final_overrider defined_in c of Some m \<Rightarrow> m | None \<Rightarrow> in_Fill)"

definition is_self_crossing :: "bool \<Rightarrow> fill_class \<Rightarrow> bool" where
  "is_self_crossing in_Fill c = virtual_call is_self_crossing_override in_Fill c"

definition no_sort :: "bool \<Rightarrow> fill_class \<Rightarrow> bool" where
  "no_sort in_Fill c = virtual_call no_sort_override in_Fill c"

definition has_consistent_pattern :: "bool \<Rightarrow> fill_class \<Rightarrow> bool" where
  "has_consistent_pattern in_Fill c = virtual_call has_consistent_pattern_override in_Fill c"

text \<open>The source's name is \<^verbatim>\<open>_layer_angle\<close>; a HOL name starts with a letter.\<close>

definition layer_angle :: "(size_t \<Rightarrow> real) \<Rightarrow> fill_class \<Rightarrow> size_t \<Rightarrow> real" where
  "layer_angle in_Fill c idx = virtual_call layer_angle_override in_Fill c idx"

section \<open>The constructor of PerimeterGenerator\<close>

text \<open>
  The second part of FillRectilinear.hpp is the header of the perimeter generator. Its
  constructor has an empty body: everything it does is its member initialiser list.
  A \<open>double\<close> is a real number here; the comparison \<^verbatim>\<open>resolution.value > EPSILON\<close>
  of two finite doubles is the comparison of the reals they denote. A pointer is an
  \<open>option\<close>, \<open>None\<close> being \<open>nullptr\<close>. The objects the constructor only stores a
  pointer to are addresses; \<open>print_config\<close> is dereferenced, so it points to a
  \<open>PrintConfig\<close>, of which the constructor reads \<^verbatim>\<open>resolution.value\<close> alone.
  \<open>Flow\<close> (Flow.hpp) is copied, never inspected: it is the type parameter \<open>'flow\<close>.
\<close>

type_synonym addr = nat

record PrintConfig =
  resolution :: real

text \<open>
  The members the initialiser list writes, in the order of the list. The other members
  (\<open>perimeter_regions\<close>, which the constructor leaves uninitialised, and the
  default-constructed \<open>smaller_ext_perimeter_flow\<close>, polygon series, distance
  boundaries and \<open>m_lower_slices_polygons\<close>) get no value from the constructor's
  arguments.
\<close>

record 'flow PerimeterGenerator =
  slices :: "addr option"
  upper_slices :: "addr option"
  lower_slices :: "addr option"
  layer_height :: real
  layer_id :: int
  perimeter_flow :: 'flow
  ext_perimeter_flow :: 'flow
  overhang_flow :: 'flow
  solid_infill_flow :: 'flow
  config :: "addr option"
  object_config :: "addr option"
  print_config :: "PrintConfig option"
  m_spiral_vase :: bool
  m_scaled_resolution :: real
  loops :: "addr option"
  gap_fill :: "addr option"
  fill_surfaces :: "addr option"
  fill_no_overlap :: "addr option"
  loop_nodes :: "addr option"
  m_ext_mm3_per_mm :: real
  m_mm3_per_mm :: real
  m_mm3_per_mm_overhang :: real
  m_ext_mm3_per_mm_smaller_width :: real

text \<open>
  What can go wrong in the initialiser list: \<^verbatim>\<open>print_config->resolution\<close> with a
  null \<open>print_config\<close>. The list has no \<^verbatim>\<open>throw\<close> and no other exit.
\<close>

datatype error = Null_pointer_dereference

text \<open>
  \<^verbatim>\<open>EPSILON\<close> and \<^verbatim>\<open>scaled<double>\<close> come from libslic3r.h, which the header
  includes and this development does not cover: they are the first two parameters. The
  remaining parameters are the constructor's, in its order.
\<close>

definition new_PerimeterGenerator ::
  "real \<Rightarrow> (real \<Rightarrow> real) \<Rightarrow>
   addr option \<Rightarrow> real \<Rightarrow> 'flow \<Rightarrow> addr option \<Rightarrow> addr option \<Rightarrow> PrintConfig option \<Rightarrow> bool \<Rightarrow>
   addr option \<Rightarrow> addr option \<Rightarrow> addr option \<Rightarrow> addr option \<Rightarrow> addr option \<Rightarrow>
   error + 'flow PerimeterGenerator" where
  "new_PerimeterGenerator EPSILON scaled
     slices' layer_height' flow config' object_config' print_config' spiral_mode
     loops' gap_fill' fill_surfaces' fill_no_overlap' loop_nodes' =
     (case print_config' of
        None \<Rightarrow> Inl Null_pointer_dereference
      | Some pc \<Rightarrow>
          Inr \<lparr> slices = slices', upper_slices = None, lower_slices = None,
                layer_height = layer_height',
                layer_id = - 1, perimeter_flow = flow, ext_perimeter_flow = flow,
                overhang_flow = flow, solid_infill_flow = flow,
                config = config', object_config = object_config',
                print_config = print_config',
                m_spiral_vase = spiral_mode,
                m_scaled_resolution =
                  scaled (if resolution pc > EPSILON then resolution pc else EPSILON),
                loops = loops',
                gap_fill = gap_fill',
                fill_surfaces = fill_surfaces',
                fill_no_overlap = fill_no_overlap',
                loop_nodes = loop_nodes',
                m_ext_mm3_per_mm = - 1, m_mm3_per_mm = - 1, m_mm3_per_mm_overhang = - 1,
                m_ext_mm3_per_mm_smaller_width = - 1 \<rparr>)"

section \<open>GCode::LayerToPrint\<close>

text \<open>
  \<open>LayerToPrint\<close> (GCode.hpp) holds three pointers. Of the \<open>Layer\<close> a pointer leads to
  (Layer.hpp, not covered here) the struct reads the member \<open>print_z\<close> and calls
  \<open>object()\<close>, which returns a \<^verbatim>\<open>const PrintObject*\<close>: these are the two fields of
  the record \<open>Layer\<close>. A \<open>SupportLayer\<close> is a \<open>Layer\<close> (its derived class), and
  \<open>layer()\<close> returns it as one. \<open>PrintObject\<close> is only pointed to: the type parameter
  \<open>'po\<close>.
\<close>

record 'po Layer =
  Layer_print_z :: real
  Layer_object :: "'po option"

record 'po LayerToPrint =
  object_layer :: "'po Layer option"
  support_layer :: "'po Layer option"
  original_object :: "'po option"




text \<open>
  \<open>print_z()\<close> in two steps: the locals \<open>sum_z\<close> and \<open>count\<close> after the two
  \<^verbatim>\<open>if\<close> statements, then \<^verbatim>\<open>return sum_z / count\<close>. \<open>count\<close> is a \<open>size_t\<close>
  that never exceeds 2, a natural number here. A quotient by \<open>count = 0\<close> is no real
  number (as a quotient of doubles, 0/0, it is not a number either): it is \<open>None\<close>.
\<close>

definition print_z_sum_count :: "'po LayerToPrint \<Rightarrow> real \<times> nat" where
  "print_z_sum_count l =
     (let (sum_z, count) = (0, 0);
          (sum_z, count) =
            (case object_layer l of
               Some ol \<Rightarrow> (sum_z + Layer_print_z ol, count + 1)
             | None \<Rightarrow> (sum_z, count));
          (sum_z, count) =
            (case support_layer l of
               Some sl \<Rightarrow> (sum_z + Layer_print_z sl, count + 1)
             | None \<Rightarrow> (sum_z, count))
      in (sum_z, count))"

definition print_z :: "'po LayerToPrint \<Rightarrow> real option" where
  "print_z l =
     (case print_z_sum_count l of
        (sum_z, count) \<Rightarrow> if count = 0 then None else Some (sum_z / real count))"

text \<open>
  For stating what \<open>print_z\<close> computes: the layers a \<open>LayerToPrint\<close> has, those of its
  two layer pointers that are not null.
\<close>

definition non_null_layers :: "'po LayerToPrint \<Rightarrow> 'po Layer list" where
  "non_null_layers l =
     (case object_layer l of None \<Rightarrow> [] | Some a \<Rightarrow> [a]) @
     (case support_layer l of None \<Rightarrow> [] | Some b \<Rightarrow> [b])"


section \<open>Lookup along the inheritance chain\<close>

text \<open>
  At a given class the lookup is a computation: the equation of \<open>final_overrider\<close> is
  unfolded once per class on the chain, and the chain ends at \<open>Fill\<close>.
\<close>

lemmas lookup_simps = virtual_call_def final_overrider.simps

lemma final_overrider_defined:
  "defined_in c = Some m \<Longrightarrow> final_overrider defined_in c = Some m"
  by (subst final_overrider.simps) simp

lemma final_overrider_inherited:
  "defined_in c = None \<Longrightarrow> base_class c = Some b \<Longrightarrow>
   final_overrider defined_in c = final_overrider defined_in b"
  by (subst final_overrider.simps) simp

section \<open>Which patterns cross themselves\<close>

text \<open>
  Claim C4. \<open>is_self_crossing()\<close> returns true for each of the multi-sweep patterns
  FillGrid, FillTriangles, FillStars and FillCubic, and false for the line patterns
  FillRectilinear, its monotonic derivatives FillMonotonic and FillMonotonicLine (which
  inherit it), and FillMonotonicLineWGapFill. Whatever \<open>Fill\<close> itself says does not
  matter: the result is the same for every \<open>in_Fill\<close>.
\<close>

theorem is_self_crossing_patterns:
  "is_self_crossing in_Fill FillGrid \<and>
   is_self_crossing in_Fill FillTriangles \<and>
   is_self_crossing in_Fill FillStars \<and>
   is_self_crossing in_Fill FillCubic \<and>
   \<not> is_self_crossing in_Fill FillRectilinear \<and>
   \<not> is_self_crossing in_Fill FillMonotonic \<and>
   \<not> is_self_crossing in_Fill FillMonotonicLine \<and>
   \<not> is_self_crossing in_Fill FillMonotonicLineWGapFill"
  by (simp add: is_self_crossing_def lookup_simps)

text \<open>
  Claim C1 says that the support-base pattern reports \<open>is_self_crossing() = true\<close>.
  The class body of FillSupportBase defines \<open>clone\<close>, the destructor, \<open>fill_surface\<close>
  and \<open>_layer_angle\<close>, and no \<open>is_self_crossing\<close>: the call runs the one of its base
  FillRectilinear, which returns false. The claim fails whichever value \<open>Fill\<close> has.
\<close>

theorem support_base_self_crossing_counterexample:
  "\<not> is_self_crossing True FillSupportBase \<and> \<not> is_self_crossing False FillSupportBase"
  by (simp add: is_self_crossing_def lookup_simps)

text \<open>
  Claim C1, amended. FillSupportBase does not define \<open>is_self_crossing()\<close>; it inherits
  the one of FillRectilinear and so reports false, as the simple rectilinear line
  patterns do.
\<close>

theorem support_base_not_self_crossing:
  "is_self_crossing_override FillSupportBase = None \<and>
   base_class FillSupportBase = Some FillRectilinear \<and>
   is_self_crossing in_Fill FillSupportBase = is_self_crossing in_Fill FillRectilinear \<and>
   is_self_crossing in_Fill FillSupportBase = False"
  by (simp add: is_self_crossing_def lookup_simps)

section \<open>Patterns that are the same on every layer\<close>

text \<open>
  Claim C5. \<open>has_consistent_pattern()\<close> returns true for each of the zig-zag variants
  FillZigZag, FillCrossZag and FillLockedZag.
\<close>

theorem zag_has_consistent_pattern:
  "has_consistent_pattern in_Fill FillZigZag \<and>
   has_consistent_pattern in_Fill FillCrossZag \<and>
   has_consistent_pattern in_Fill FillLockedZag"
  by (simp add: has_consistent_pattern_def lookup_simps)

section \<open>Patterns whose lines keep their order\<close>

text \<open>
  Claim C10. Each monotonic variant (FillMonotonic, FillMonotonicLine,
  FillMonotonicLineWGapFill) returns \<open>no_sort() = true\<close>. The base pattern
  FillRectilinear does not set \<open>no_sort\<close>: its class body has no definition of it, and
  a call of \<open>no_sort()\<close> on it gives what \<open>Fill\<close> gives.
\<close>

theorem monotonic_no_sort:
  "no_sort in_Fill FillMonotonic \<and>
   no_sort in_Fill FillMonotonicLine \<and>
   no_sort in_Fill FillMonotonicLineWGapFill \<and>
   no_sort_override FillRectilinear = None \<and>
   no_sort in_Fill FillRectilinear = in_Fill"
  by (simp add: no_sort_def lookup_simps)

section \<open>The angle of a layer\<close>

text \<open>
  Claim C3 says that for every infill pattern \<open>_layer_angle(layer_idx)\<close> is not a
  constant function of the layer index. For FillGrid it is one: its \<open>_layer_angle\<close>
  returns \<open>0.f\<close> for every index, and no definition of \<open>Fill::_layer_angle\<close> changes
  that.
\<close>

theorem layer_angle_varies_counterexample:
  "\<not> (\<exists>in_Fill i j. layer_angle in_Fill FillGrid i \<noteq> layer_angle in_Fill FillGrid j)"
  by (simp add: layer_angle_def lookup_simps)

text \<open>
  Claim C3, amended. For FillAlignedRectilinear, FillGrid, FillTriangles, FillStars,
  FillCubic and FillSupportBase, \<open>_layer_angle(idx)\<close> is 0 at every layer index: these
  patterns keep their angle between the layers. The other classes of the header define no
  \<open>_layer_angle\<close>; for them the angle of a layer is the one \<open>Fill::_layer_angle\<close>
  computes.
\<close>

theorem layer_angle_by_pattern:
  "layer_angle in_Fill FillAlignedRectilinear idx = 0 \<and>
   layer_angle in_Fill FillGrid idx = 0 \<and>
   layer_angle in_Fill FillTriangles idx = 0 \<and>
   layer_angle in_Fill FillStars idx = 0 \<and>
   layer_angle in_Fill FillCubic idx = 0 \<and>
   layer_angle in_Fill FillSupportBase idx = 0 \<and>
   layer_angle in_Fill Fill idx = in_Fill idx \<and>
   layer_angle in_Fill FillRectilinear idx = in_Fill idx \<and>
   layer_angle in_Fill FillMonotonic idx = in_Fill idx \<and>
   layer_angle in_Fill FillMonotonicLine idx = in_Fill idx \<and>
   layer_angle in_Fill FillMonotonicLineWGapFill idx = in_Fill idx \<and>
   layer_angle in_Fill FillZigZag idx = in_Fill idx \<and>
   layer_angle in_Fill FillCrossZag idx = in_Fill idx \<and>
   layer_angle in_Fill FillLockedZag idx = in_Fill idx"
  by (simp add: layer_angle_def lookup_simps)

section \<open>The resolution the perimeter generator works with\<close>

text \<open>
  Claim C2 says that a configured resolution \<open>\<le> 0\<close> stops the export, and that the
  constructor of the perimeter generator does not go on with a substituted value. The
  constructor does go on: with \<^verbatim>\<open>EPSILON\<close> \<open>= 1/10000\<close> and \<^verbatim>\<open>scaled\<close> the
  multiplication by \<open>1000000\<close>, a resolution of \<open>0\<close> and one of \<open>- 1\<close> both give a
  generator whose \<open>m_scaled_resolution\<close> is \<open>100\<close>, the scaled \<^verbatim>\<open>EPSILON\<close>.
\<close>

theorem resolution_hard_stop_counterexample:
  "map_sum id m_scaled_resolution
     (new_PerimeterGenerator (1 / 10000) (\<lambda>v. v * 1000000)
        (Some 1) (1 / 5) () (Some 2) (Some 3) (Some \<lparr> resolution = 0 \<rparr>) False
        (Some 4) (Some 5) (Some 6) (Some 7) (Some 8)) = Inr 100 \<and>
   map_sum id m_scaled_resolution
     (new_PerimeterGenerator (1 / 10000) (\<lambda>v. v * 1000000)
        (Some 1) (1 / 5) () (Some 2) (Some 3) (Some \<lparr> resolution = - 1 \<rparr>) False
        (Some 4) (Some 5) (Some 6) (Some 7) (Some 8)) = Inr 100"
  by (simp add: new_PerimeterGenerator_def)

text \<open>
  Claim C2, amended. Constructing the perimeter generator never stops on account of the
  resolution: with any \<open>print_config\<close> it returns a generator, whose
  \<open>m_scaled_resolution\<close> is the scaled larger one of the configured resolution and
  \<^verbatim>\<open>EPSILON\<close>. So a resolution that is not above \<^verbatim>\<open>EPSILON\<close>, in particular one
  \<open>\<le> 0\<close> (for a positive \<^verbatim>\<open>EPSILON\<close>), is replaced by \<^verbatim>\<open>EPSILON\<close> without a
  message.
\<close>

theorem resolution_substituted:
  "\<exists>g. new_PerimeterGenerator EPSILON scaled slices' layer_height' flow config' object_config'
          (Some pc) spiral_mode loops' gap_fill' fill_surfaces' fill_no_overlap' loop_nodes'
        = Inr g \<and>
       m_scaled_resolution g = scaled (max (resolution pc) EPSILON) \<and>
       (resolution pc \<le> EPSILON \<longrightarrow> m_scaled_resolution g = scaled EPSILON) \<and>
       (0 < EPSILON \<and> resolution pc \<le> 0 \<longrightarrow> m_scaled_resolution g = scaled EPSILON) \<and>
       (EPSILON < resolution pc \<longrightarrow> m_scaled_resolution g = scaled (resolution pc))"
  by (simp add: new_PerimeterGenerator_def max_def)

theorem resolution_substituted_witness:
  "\<exists>g. new_PerimeterGenerator (1 / 10000) (\<lambda>v. v * 1000000)
          (Some 1) (1 / 5) () (Some 2) (Some 3) (Some \<lparr> resolution = 0 \<rparr>) False
          (Some 4) (Some 5) (Some 6) (Some 7) (Some 8) = Inr g \<and>
       m_scaled_resolution g = 100"
  using resolution_substituted
    [where EPSILON = "1 / 10000" and scaled = "\<lambda>v. v * 1000000" and pc = "\<lparr> resolution = 0 \<rparr>"
       and slices' = "Some 1" and layer_height' = "1 / 5" and flow = "()"
       and config' = "Some 2" and object_config' = "Some 3" and spiral_mode = False
       and loops' = "Some 4" and gap_fill' = "Some 5" and fill_surfaces' = "Some 6"
       and fill_no_overlap' = "Some 7" and loop_nodes' = "Some 8"]
  by auto

section \<open>The layer, the object and the height of a LayerToPrint\<close>

lemma print_z_sum_count_eq:
  "print_z_sum_count l =
     (sum_list (map Layer_print_z (non_null_layers l)), length (non_null_layers l))"
  by (simp add: print_z_sum_count_def non_null_layers_def split: option.split)

lemma non_null_layers_empty:
  "non_null_layers l = [] \<longleftrightarrow> object_layer l = None \<and> support_layer l = None"
  by (simp add: non_null_layers_def split: option.split)

text \<open>
  Claim C8. \<open>print_z()\<close> divides the sum of the \<open>print_z\<close> of the non-null ones among
  \<open>object_layer\<close> and \<open>support_layer\<close> by their number: it returns their arithmetic
  mean, and their common height when both are there and equal. The divisor is zero, and
  the quotient no number, exactly when both pointers are null.
\<close>

theorem print_z_mean:
  "print_z_sum_count l =
     (sum_list (map Layer_print_z (non_null_layers l)), length (non_null_layers l)) \<and>
   (snd (print_z_sum_count l) = 0 \<longleftrightarrow> object_layer l = None \<and> support_layer l = None) \<and>
   (print_z l = None \<longleftrightarrow> object_layer l = None \<and> support_layer l = None) \<and>
   (non_null_layers l \<noteq> [] \<longrightarrow>
      print_z l =
        Some (sum_list (map Layer_print_z (non_null_layers l)) / real (length (non_null_layers l)))) \<and>
   (\<forall>a b. object_layer l = Some a \<and> support_layer l = Some b \<and> Layer_print_z a = Layer_print_z b
      \<longrightarrow> print_z l = Some (Layer_print_z a))"
proof -
  have empty: "non_null_layers l = [] \<longleftrightarrow> object_layer l = None \<and> support_layer l = None"
    by (rule non_null_layers_empty)
  have count: "snd (print_z_sum_count l) = 0 \<longleftrightarrow> non_null_layers l = []"
    by (simp add: print_z_sum_count_eq)
  have none: "print_z l = None \<longleftrightarrow> non_null_layers l = []"
    by (simp add: print_z_def print_z_sum_count_eq)
  have mean: "non_null_layers l \<noteq> [] \<longrightarrow>
      print_z l =
        Some (sum_list (map Layer_print_z (non_null_layers l)) / real (length (non_null_layers l)))"
    by (simp add: print_z_def print_z_sum_count_eq)
  have both: "print_z l = Some (Layer_print_z a)"
    if "object_layer l = Some a \<and> support_layer l = Some b \<and> Layer_print_z a = Layer_print_z b"
    for a b
    using that by (simp add: print_z_def print_z_sum_count_eq non_null_layers_def)
  show ?thesis
    using empty count none mean both print_z_sum_count_eq [of l] by blast
qed

theorem print_z_mean_witness:
  "print_z \<lparr> object_layer = Some \<lparr> Layer_print_z = 1 / 5, Layer_object = Some (1 :: nat) \<rparr>,
             support_layer = Some \<lparr> Layer_print_z = 1 / 5, Layer_object = Some 1 \<rparr>,
             original_object = None \<rparr> = Some (1 / 5) \<and>
   print_z \<lparr> object_layer = None,
             support_layer = Some \<lparr> Layer_print_z = 3 / 5, Layer_object = Some (1 :: nat) \<rparr>,
             original_object = None \<rparr> = Some (3 / 5)"
proof -
  let ?A = "\<lparr> Layer_print_z = 1 / 5, Layer_object = Some (1 :: nat) \<rparr>"
  let ?B = "\<lparr> Layer_print_z = 3 / 5, Layer_object = Some (1 :: nat) \<rparr>"
  let ?L = "\<lparr> object_layer = Some ?A, support_layer = Some ?A, original_object = None \<rparr>"
  let ?M = "\<lparr> object_layer = None, support_layer = Some ?B, original_object = None \<rparr>"
  have "\<forall>a b. object_layer ?L = Some a \<and> support_layer ?L = Some b \<and> Layer_print_z a = Layer_print_z b
      \<longrightarrow> print_z ?L = Some (Layer_print_z a)"
    using print_z_mean [of ?L] by (elim conjE)
  then have "object_layer ?L = Some ?A \<and> support_layer ?L = Some ?A \<and> Layer_print_z ?A = Layer_print_z ?A
      \<longrightarrow> print_z ?L = Some (Layer_print_z ?A)"
    by (elim allE)
  then have both: "print_z ?L = Some (1 / 5)"
    by simp
  have ne: "non_null_layers ?M \<noteq> []"
    by (simp add: non_null_layers_def)
  have "non_null_layers ?M \<noteq> [] \<longrightarrow>
      print_z ?M =
        Some (sum_list (map Layer_print_z (non_null_layers ?M)) / real (length (non_null_layers ?M)))"
    using print_z_mean [of ?M] by (elim conjE)
  with ne have one: "print_z ?M = Some (3 / 5)"
    by (simp add: non_null_layers_def)
  from both one show ?thesis
    by (rule conjI)
qed



end
